theory Spec2Isabelle
  imports Complex_Main "HOL-Library.Sublist" "HOL-Library.Multiset"
begin

section \<open>Values of the parsed table\<close>

text \<open>
  \<^verbatim>\<open>CsvViewer.tsx\<close> keeps the parsed rows as \<^verbatim>\<open>any[]\<close>. With \<^verbatim>\<open>dynamicTyping\<close> a cell is
  a string, a number, a boolean or null; reading a key a row does not have gives
  \<^verbatim>\<open>undefined\<close>. Numbers are modelled as integers (the integer-valued numbers of the
  safe range, whose string form is the plain decimal numeral); strings are lists of
  characters, with ASCII letter case.
\<close>

datatype jsval = JUndefined | JNull | JBool bool | JNum int | JStr string

text \<open>
  A row is a JavaScript object: its own properties in enumeration order
  (the order of \<^verbatim>\<open>Object.keys\<close> and \<^verbatim>\<open>Object.values\<close>).
\<close>

type_synonym row = "(string \<times> jsval) list"

definition object_values :: "row \<Rightarrow> jsval list" where
  "object_values r = map snd r"

text \<open>\<^verbatim>\<open>row[key]\<close>: the property's value, \<^verbatim>\<open>undefined\<close> when the row has no such key.\<close>

definition get_prop :: "row \<Rightarrow> string \<Rightarrow> jsval" where
  "get_prop r k = (case map_of r k of None \<Rightarrow> JUndefined | Some v \<Rightarrow> v)"

subsection \<open>\<^verbatim>\<open>String(value)\<close>\<close>

definition digit_char :: "nat \<Rightarrow> char" where
  "digit_char d = char_of (48 + d)"

fun nat_digits :: "nat \<Rightarrow> string" where
  "nat_digits n = (if n < 10 then [digit_char n] else nat_digits (n div 10) @ [digit_char (n mod 10)])"

declare nat_digits.simps [simp del]

definition int_to_string :: "int \<Rightarrow> string" where
  "int_to_string i = (if i < 0 then CHR ''-'' # nat_digits (nat (- i)) else nat_digits (nat i))"

fun js_String :: "jsval \<Rightarrow> string" where
  "js_String JUndefined = ''undefined''"
| "js_String JNull = ''null''"
| "js_String (JBool b) = (if b then ''true'' else ''false'')"
| "js_String (JNum n) = int_to_string n"
| "js_String (JStr s) = s"

subsection \<open>\<^verbatim>\<open>toLowerCase\<close> and \<^verbatim>\<open>includes\<close>\<close>

definition lower_char :: "char \<Rightarrow> char" where
  "lower_char c = (let n = (of_char c :: nat) in if 65 \<le> n \<and> n \<le> 90 then char_of (n + 32) else c)"

definition toLowerCase :: "string \<Rightarrow> string" where
  "toLowerCase s = map lower_char s"

text \<open>\<^verbatim>\<open>s.includes(t)\<close>: \<^verbatim>\<open>t\<close> occurs in \<^verbatim>\<open>s\<close> at some position.\<close>

fun starts_with :: "string \<Rightarrow> string \<Rightarrow> bool" where
  "starts_with s [] = True"
| "starts_with [] (c # t) = False"
| "starts_with (d # s) (c # t) = (d = c \<and> starts_with s t)"

fun js_includes :: "string \<Rightarrow> string \<Rightarrow> bool" where
  "js_includes [] t = (t = [])"
| "js_includes (c # s) t = (starts_with (c # s) t \<or> js_includes s t)"

subsection \<open>Truthiness\<close>

text \<open>\<^verbatim>\<open>ToBoolean\<close>: the falsy values are undefined, null, false, 0 and the empty string.\<close>

fun truthy :: "jsval \<Rightarrow> bool" where
  "truthy JUndefined = False"
| "truthy JNull = False"
| "truthy (JBool b) = b"
| "truthy (JNum n) = (n \<noteq> 0)"
| "truthy (JStr s) = (s \<noteq> [])"

subsection \<open>The relational operators\<close>

text \<open>
  \<^verbatim>\<open>a < b\<close> on two strings compares them by character code, position by position; on
  anything else both sides are converted to numbers, and the comparison is false when
  either side is \<^verbatim>\<open>NaN\<close> (here \<open>None\<close>). \<^verbatim>\<open>a > b\<close> is \<^verbatim>\<open>b < a\<close>.
\<close>

fun str_lt :: "string \<Rightarrow> string \<Rightarrow> bool" where
  "str_lt [] [] = False"
| "str_lt [] (c # t) = True"
| "str_lt (d # s) [] = False"
| "str_lt (d # s) (c # t) =
     ((of_char d :: nat) < of_char c \<or> (d = c \<and> str_lt s t))"

definition is_space :: "char \<Rightarrow> bool" where
  "is_space c = (c = CHR '' '' \<or> (of_char c :: nat) \<in> {9, 10, 11, 12, 13})"

definition trim :: "string \<Rightarrow> string" where
  "trim s = rev (dropWhile is_space (rev (dropWhile is_space s)))"

definition is_digit :: "char \<Rightarrow> bool" where
  "is_digit c = (48 \<le> (of_char c :: nat) \<and> (of_char c :: nat) \<le> 57)"

definition digits_value :: "string \<Rightarrow> nat option" where
  "digits_value s =
     (if s \<noteq> [] \<and> list_all is_digit s
      then Some (foldl (\<lambda>acc c. 10 * acc + (of_char c - 48)) 0 s) else None)"

text \<open>
  The number a string converts to: 0 for the empty or blank string, the integer for an
  optionally signed decimal numeral, \<^verbatim>\<open>NaN\<close> for a string that is no numeral. (Strings
  holding a fraction, an exponent, a hexadecimal numeral or \<^verbatim>\<open>Infinity\<close> denote numbers
  that are outside the integers modelled here.)
\<close>

definition string_to_number :: "string \<Rightarrow> int option" where
  "string_to_number s =
     (case trim s of
        [] \<Rightarrow> Some 0
      | c # t \<Rightarrow>
          if c = CHR ''-'' then map_option (\<lambda>n. - int n) (digits_value t)
          else if c = CHR ''+'' then map_option int (digits_value t)
          else map_option int (digits_value (c # t)))"

fun to_number :: "jsval \<Rightarrow> int option" where
  "to_number JUndefined = None"
| "to_number JNull = Some 0"
| "to_number (JBool b) = Some (if b then 1 else 0)"
| "to_number (JNum n) = Some n"
| "to_number (JStr s) = string_to_number s"

fun js_lt :: "jsval \<Rightarrow> jsval \<Rightarrow> bool" where
  "js_lt (JStr s) (JStr t) = str_lt s t"
| "js_lt a b =
     (case (to_number a, to_number b) of
        (Some x, Some y) \<Rightarrow> x < y
      | _ \<Rightarrow> False)"

section \<open>The sort comparator and \<^verbatim>\<open>Array.prototype.sort\<close>\<close>

datatype direction = Asc | Desc

record sort_config =
  key :: string
  direction :: direction

text \<open>
  Lines 63 to 70 of \<^verbatim>\<open>CsvViewer.tsx\<close>:
  \<^verbatim>\<open>
    (a, b) => {
      const aValue = a[sortConfig.key];
      const bValue = b[sortConfig.key];
      if (aValue < bValue) return sortConfig.direction === "asc" ? -1 : 1;
      if (aValue > bValue) return sortConfig.direction === "asc" ? 1 : -1;
      return 0;
    }
  \<close>
\<close>

definition compare_rows :: "sort_config \<Rightarrow> row \<Rightarrow> row \<Rightarrow> int" where
  "compare_rows cfg a b =
     (let aValue = get_prop a (key cfg); bValue = get_prop b (key cfg)
      in if js_lt aValue bValue then (if direction cfg = Asc then - 1 else 1)
         else if js_lt bValue aValue then (if direction cfg = Asc then 1 else - 1)
         else 0)"

text \<open>
  \<^verbatim>\<open>Array.prototype.sort\<close> belongs to the runtime. It is a stable sort; for a comparator
  that is a consistent ordering of the elements every stable sort returns the same
  array, and for any other comparator the language leaves the order to the engine. The
  model is the stable insertion sort: an element goes in front of the first later
  element that it does not compare greater than.
\<close>

fun insert_sorted :: "('a \<Rightarrow> 'a \<Rightarrow> int) \<Rightarrow> 'a \<Rightarrow> 'a list \<Rightarrow> 'a list" where
  "insert_sorted cmp x [] = [x]"
| "insert_sorted cmp x (y # ys) =
     (if cmp x y \<le> 0 then x # y # ys else y # insert_sorted cmp x ys)"

definition array_sort :: "('a \<Rightarrow> 'a \<Rightarrow> int) \<Rightarrow> 'a list \<Rightarrow> 'a list" where
  "array_sort cmp xs = foldr (insert_sorted cmp) xs []"

section \<open>The state of the viewer\<close>

text \<open>
  The component's state, lines 6 to 16. \<^verbatim>\<open>data\<close> and \<^verbatim>\<open>filteredData\<close> hold references
  to arrays, and \<^verbatim>\<open>sort\<close> works in place, so the arrays live in a store and the two
  state variables are addresses into it. Rows themselves are never written to.
\<close>

record viewer =
  arrays :: "row list list"
  data :: nat
  columns :: "string list"
  filteredData :: nat
  searchQuery :: string
  sortConfig :: "sort_config option"
  currentPage :: int
  loading :: bool
  error :: "string option"

text \<open>Reading an array of the store; every address the component holds is allocated.\<close>

definition deref :: "row list list \<Rightarrow> nat \<Rightarrow> row list" where
  "deref h a = (if a < length h then h ! a else [])"

definition new_array :: "row list list \<Rightarrow> row list \<Rightarrow> nat \<times> row list list" where
  "new_array h xs = (length h, h @ [xs])"

definition data_rows :: "viewer \<Rightarrow> row list" where
  "data_rows s = deref (arrays s) (data s)"

definition filtered_rows :: "viewer \<Rightarrow> row list" where
  "filtered_rows s = deref (arrays s) (filteredData s)"

text \<open>The state before the first render: two fresh empty arrays.\<close>

definition initial_state :: viewer where
  "initial_state =
     \<lparr>arrays = [[], []], data = 0, columns = [], filteredData = 1, searchQuery = [],
      sortConfig = None, currentPage = 1, loading = True, error = None\<rparr>"

section \<open>The recomputation effect\<close>

text \<open>
  Lines 49 to 75 of \<^verbatim>\<open>CsvViewer.tsx\<close>:
  \<^verbatim>\<open>
    let filtered = data;
    if (searchQuery) {
      filtered = data.filter((row) =>
        Object.values(row).some((value) =>
          String(value).toLowerCase().includes(searchQuery.toLowerCase())));
    }
    if (sortConfig) {
      filtered.sort((a, b) => ...);
    }
    setFilteredData(filtered);
    setCurrentPage(1);
  \<close>
  With an empty query \<^verbatim>\<open>filtered\<close> is the array \<^verbatim>\<open>data\<close> itself; otherwise \<^verbatim>\<open>filter\<close>
  builds a new array.
\<close>

definition value_matches :: "string \<Rightarrow> jsval \<Rightarrow> bool" where
  "value_matches q v = js_includes (toLowerCase (js_String v)) (toLowerCase q)"

definition row_matches :: "string \<Rightarrow> row \<Rightarrow> bool" where
  "row_matches q r = list_ex (value_matches q) (object_values r)"

text \<open>The search filter: the address of \<^verbatim>\<open>filtered\<close> and the store after line 59.\<close>

definition filter_step :: "viewer \<Rightarrow> nat \<times> row list list" where
  "filter_step s =
     (if searchQuery s \<noteq> []
      then new_array (arrays s) (filter (row_matches (searchQuery s)) (data_rows s))
      else (data s, arrays s))"

definition filtered_before_sort :: "viewer \<Rightarrow> row list" where
  "filtered_before_sort s = (case filter_step s of (a, h) \<Rightarrow> deref h a)"

text \<open>The sort, in place on the array \<^verbatim>\<open>filtered\<close> refers to.\<close>

definition sort_step :: "sort_config option \<Rightarrow> nat \<times> row list list \<Rightarrow> nat \<times> row list list" where
  "sort_step cfg fh =
     (case fh of (a, h) \<Rightarrow>
        (case cfg of
           None \<Rightarrow> (a, h)
         | Some c \<Rightarrow> (a, h[a := array_sort (compare_rows c) (deref h a)])))"

definition recompute :: "viewer \<Rightarrow> viewer" where
  "recompute s =
     (case sort_step (sortConfig s) (filter_step s) of
        (a, h) \<Rightarrow> s\<lparr>arrays := h, filteredData := a, currentPage := 1\<rparr>)"

section \<open>Event handlers\<close>

text \<open>
  Each handler sets a state variable; the recomputation effect runs after the render
  when \<^verbatim>\<open>data\<close>, \<^verbatim>\<open>searchQuery\<close> or \<^verbatim>\<open>sortConfig\<close> changed. Setting the query to the value
  it has is no change. \<^verbatim>\<open>handleSort\<close> always stores a new object.
\<close>

definition setSearchQuery :: "string \<Rightarrow> viewer \<Rightarrow> viewer" where
  "setSearchQuery q s =
     (if q = searchQuery s then s else recompute (s\<lparr>searchQuery := q\<rparr>))"

text \<open>
  Lines 77 to 82:
  \<^verbatim>\<open>
    setSortConfig((current) => ({
      key: column,
      direction: current?.key === column && current.direction === "asc" ? "desc" : "asc",
    }));
  \<close>
\<close>

definition next_sort_config :: "string \<Rightarrow> sort_config option \<Rightarrow> sort_config" where
  "next_sort_config column current =
     \<lparr>key = column,
      direction =
        (case current of
           None \<Rightarrow> Asc
         | Some c \<Rightarrow> if key c = column \<and> direction c = Asc then Desc else Asc)\<rparr>"

definition handleSort :: "string \<Rightarrow> viewer \<Rightarrow> viewer" where
  "handleSort column s =
     recompute (s\<lparr>sortConfig := Some (next_sort_config column (sortConfig s))\<rparr>)"

section \<open>Pagination\<close>

text \<open>
  Lines 122 to 125:
  \<^verbatim>\<open>
    const totalPages = Math.ceil(filteredData.length / itemsPerPage);
    const startIndex = (currentPage - 1) * itemsPerPage;
    const endIndex = startIndex + itemsPerPage;
    const currentData = filteredData.slice(startIndex, endIndex);
  \<close>
\<close>

definition itemsPerPage :: int where
  "itemsPerPage = 50"

definition totalPages :: "viewer \<Rightarrow> int" where
  "totalPages s = \<lceil>real (length (filtered_rows s)) / real_of_int itemsPerPage\<rceil>"

definition startIndex :: "viewer \<Rightarrow> int" where
  "startIndex s = (currentPage s - 1) * itemsPerPage"

definition endIndex :: "viewer \<Rightarrow> int" where
  "endIndex s = startIndex s + itemsPerPage"

text \<open>
  \<^verbatim>\<open>xs.slice(start, end)\<close>: a negative bound counts from the end of the array, and both
  bounds are cut to the array.
\<close>

definition slice_bound :: "int \<Rightarrow> int \<Rightarrow> int" where
  "slice_bound len i = (if i < 0 then max (len + i) 0 else min i len)"

definition js_slice :: "'a list \<Rightarrow> int \<Rightarrow> int \<Rightarrow> 'a list" where
  "js_slice xs start stop =
     (let len = int (length xs); k = slice_bound len start; final = slice_bound len stop
      in take (nat (final - k)) (drop (nat k) xs))"

definition currentData :: "viewer \<Rightarrow> row list" where
  "currentData s = js_slice (filtered_rows s) (startIndex s) (endIndex s)"

text \<open>
  The three kinds of pagination button, lines 202 to 237. The block is rendered when
  \<^verbatim>\<open>totalPages > 1\<close>; there is one numbered button for each page from 1 to
  \<^verbatim>\<open>Math.min(5, totalPages)\<close>. Previous is disabled on page 1 and Next on the last
  page, where their handlers would set the page they are on.
  \<^verbatim>\<open>
    onClick={() => setCurrentPage(Math.max(1, currentPage - 1))}
    onClick={() => setCurrentPage(pageNum)}
    onClick={() => setCurrentPage(Math.min(totalPages, currentPage + 1))}
  \<close>
\<close>

definition previousPage :: "viewer \<Rightarrow> viewer" where
  "previousPage s = s\<lparr>currentPage := max 1 (currentPage s - 1)\<rparr>"

definition goToPage :: "int \<Rightarrow> viewer \<Rightarrow> viewer" where
  "goToPage pageNum s = s\<lparr>currentPage := pageNum\<rparr>"

definition nextPage :: "viewer \<Rightarrow> viewer" where
  "nextPage s = s\<lparr>currentPage := min (totalPages s) (currentPage s + 1)\<rparr>"


section \<open>Export\<close>

text \<open>
  Lines 95 to 102:
  \<^verbatim>\<open>
    const csv = Papa.unparse(filteredData);
    const blob = new Blob([csv], { type: "text/csv;charset=utf-8;" });
    ...
    link.download = `filtered_${file.name}`;
  \<close>
  The serializer belongs to the CSV library. The model records what the handler hands
  to it and how the result is offered: the argument of \<^verbatim>\<open>Papa.unparse\<close>, the type of the
  blob, and the name of the download.
\<close>

record export_request =
  unparse_argument :: "row list"
  blob_type :: string
  download :: string

definition exportData :: "string \<Rightarrow> viewer \<Rightarrow> export_request" where
  "exportData file_name s =
     \<lparr>unparse_argument = filtered_rows s,
      blob_type = ''text/csv;charset=utf-8;'',
      download = ''filtered_'' @ file_name\<rparr>"

section \<open>Loading\<close>

text \<open>
  Lines 20 to 47. The file is read by a \<^verbatim>\<open>FileReader\<close> with an \<^verbatim>\<open>onload\<close> handler and no
  other handler; the handler parses the text with the CSV library inside a
  \<^verbatim>\<open>try\<close> block. The outcome of the read and of the parse are inputs of the model:
  the read fails or delivers the text, and the parser throws or returns its result
  (the list of errors, the rows, the header fields).
  \<^verbatim>\<open>
    reader.onload = () => {
      try {
        const parsed = Papa.parse(text, {...});
        if (parsed.errors.length > 0) {
          setError("Error parsing CSV file");
          return;
        }
        setData(parsed.data);
        setFilteredData(parsed.data);
        setColumns(parsed.meta.fields || []);
        setLoading(false);
      } catch (err) {
        setError("Failed to load CSV file");
        setLoading(false);
      }
    };
    reader.readAsText(file);
  \<close>
\<close>

record parse_result =
  errors :: "string list"
  parsed_data :: "row list"
  meta_fields :: "string list option"

datatype parse_outcome = ParseThrows | Parsed parse_result

datatype read_outcome = ReadFails | ReadDone parse_outcome

definition onload :: "parse_outcome \<Rightarrow> viewer \<Rightarrow> viewer" where
  "onload outcome s =
     (case outcome of
        ParseThrows \<Rightarrow> s\<lparr>loading := False, error := Some ''Failed to load CSV file''\<rparr>
      | Parsed parsed \<Rightarrow>
          if length (errors parsed) > 0 then s\<lparr>error := Some ''Error parsing CSV file''\<rparr>
          else
            (case new_array (arrays s) (parsed_data parsed) of
               (a, h) \<Rightarrow>
                 recompute
                   (s\<lparr>arrays := h, data := a, filteredData := a,
                      columns := (case meta_fields parsed of None \<Rightarrow> [] | Some fs \<Rightarrow> fs),
                      loading := False\<rparr>)))"

definition load :: "read_outcome \<Rightarrow> viewer \<Rightarrow> viewer" where
  "load r s = (case r of ReadFails \<Rightarrow> s | ReadDone outcome \<Rightarrow> onload outcome s)"

text \<open>The component after mounting: the recomputation effect has run once.\<close>

definition mounted :: viewer where
  "mounted = recompute initial_state"

section \<open>Rendering\<close>

text \<open>
  Lines 104 to 120 and 178 to 188: the loading indicator while \<^verbatim>\<open>loading\<close> is set, else
  the error message when \<^verbatim>\<open>error\<close> is set, else the table. The text of a cell is
  \<^verbatim>\<open>String(row[column] || "")\<close>.
\<close>

definition cell_text :: "row \<Rightarrow> string \<Rightarrow> string" where
  "cell_text r column =
     js_String (let v = get_prop r column in if truthy v then v else JStr [])"

datatype screen =
    LoadingScreen
  | ErrorScreen string
  | TableScreen "string list" "string list list"

definition render :: "viewer \<Rightarrow> screen" where
  "render s =
     (if loading s then LoadingScreen
      else
        (case error s of
           Some e \<Rightarrow>
             if e \<noteq> [] then ErrorScreen e
             else TableScreen (columns s) (map (\<lambda>r. map (cell_text r) (columns s)) (currentData s))
         | None \<Rightarrow>
             TableScreen (columns s) (map (\<lambda>r. map (cell_text r) (columns s)) (currentData s))))"

section \<open>The tree renderer\<close>

text \<open>
  \<^verbatim>\<open>FileNode.tsx\<close>. A node is an object with a name, a type (\<^verbatim>\<open>"folder"\<close> or \<^verbatim>\<open>"file"\<close>), a
  file type, a creation time, the name of who modified it, and the sequence of its
  children, which may be undefined.
\<close>

datatype tree_node =
  TreeNode (name: string) (type: string) (fileType: string) (createdAt: string)
    (modifiedBy: string) (children: "tree_node list option")

text \<open>
  Each rendered \<^verbatim>\<open>FileNode\<close> is a component instance with its own \<^verbatim>\<open>expanded\<close> flag,
  initially false, and the instances of the children it has rendered, by position. A
  child that has no instance yet is mounted with a fresh one.
\<close>

datatype node_state = Instance (expanded: bool) (kids: "node_state list")

definition fresh :: node_state where
  "fresh = Instance False []"

datatype arrow = ChevronDown | ChevronRight | Spacer

datatype icon = FolderIcon | DatabaseIcon | FileTextIcon

text \<open>
  What a \<^verbatim>\<open>FileNode\<close> renders: the row of the node (hover class, arrow, icon, name, the
  file-type badge of a file, creation time and modifier), the block of its children when
  there is one, and the empty-folder indicator when there is one. The creation time is
  kept as it is stored; the component shows it as a date in the locale's format.
\<close>

record markup_row =
  hover :: string
  arrow :: arrow
  icon :: "icon option"
  label :: string
  badge :: "string option"
  created :: string
  modified :: string

datatype markup =
  Markup (row: markup_row) (child_block: "markup list option") (empty_indicator: "string option")

definition isFolder :: "tree_node \<Rightarrow> bool" where
  "isFolder node = (type node = ''folder'')"

definition renderIcon :: "tree_node \<Rightarrow> icon option" where
  "renderIcon node =
     (if isFolder node then Some FolderIcon
      else if fileType node = ''csv'' then Some DatabaseIcon
      else if fileType node = ''pdf'' then Some FileTextIcon
      else None)"

definition getFileTypeColor :: "tree_node \<Rightarrow> string" where
  "getFileTypeColor node =
     (if isFolder node then ''hover:bg-blue-50''
      else if fileType node = ''csv'' then ''hover:bg-green-50''
      else if fileType node = ''pdf'' then ''hover:bg-red-50''
      else ''hover:bg-slate-50'')"

definition node_row :: "tree_node \<Rightarrow> bool \<Rightarrow> markup_row" where
  "node_row node ex =
     \<lparr>hover = getFileTypeColor node,
      arrow = (if isFolder node then (if ex then ChevronDown else ChevronRight) else Spacer),
      icon = renderIcon node,
      label = name node,
      badge = (if type node = ''file'' then Some (fileType node) else None),
      created = createdAt node,
      modified = modifiedBy node\<rparr>"

text \<open>
  Lines 73 to 87:
  \<^verbatim>\<open>
    {expanded && isFolder && node.children.length > 0 && (
      <div ...>{node.children.map((child, idx) => <FileNode key={idx} node={child} ... />)}</div>
    )}
    {expanded && isFolder && node.children.length === 0 && (
      <div ...><div ...>Empty folder</div></div>
    )}
  \<close>
  Reading \<^verbatim>\<open>length\<close> of undefined children throws; the result is then \<open>None\<close>.
\<close>

fun render_node :: "tree_node \<Rightarrow> node_state \<Rightarrow> markup option"
  and render_children :: "tree_node list \<Rightarrow> node_state list \<Rightarrow> markup list option" where
  "render_node (TreeNode nm ty ft ca mb ch) (Instance ex ks) =
     (if ex \<and> isFolder (TreeNode nm ty ft ca mb ch) then
        (case ch of
           None \<Rightarrow> None
         | Some cs \<Rightarrow>
             if length cs > 0 then
               (case render_children cs ks of
                  None \<Rightarrow> None
                | Some ms \<Rightarrow>
                    Some (Markup (node_row (TreeNode nm ty ft ca mb ch) ex) (Some ms) None))
             else
               Some (Markup (node_row (TreeNode nm ty ft ca mb ch) ex) None (Some ''Empty folder'')))
      else Some (Markup (node_row (TreeNode nm ty ft ca mb ch) ex) None None))"
| "render_children [] ks = Some []"
| "render_children (c # cs) ks =
     (case render_node c (case ks of [] \<Rightarrow> fresh | k # _ \<Rightarrow> k) of
        None \<Rightarrow> None
      | Some m \<Rightarrow>
          (case render_children cs (tl ks) of
             None \<Rightarrow> None
           | Some ms \<Rightarrow> Some (m # ms)))"

text \<open>
  Line 8 and line 28: a click on a folder flips its \<^verbatim>\<open>expanded\<close> flag, a click on any
  other node calls \<^verbatim>\<open>onFileClick\<close> with the node. Children that are no longer rendered
  are unmounted and lose their state.
\<close>

definition toggle :: "node_state \<Rightarrow> node_state" where
  "toggle i = Instance (\<not> expanded i) (if expanded i then [] else kids i)"

definition click :: "tree_node \<Rightarrow> node_state \<Rightarrow> node_state \<times> tree_node option" where
  "click node i = (if isFolder node then (toggle i, None) else (i, Some node))"

section \<open>Notions used in the properties\<close>

text \<open>The addresses the state holds are allocated in the store.\<close>

definition valid_addresses :: "viewer \<Rightarrow> bool" where
  "valid_addresses s = (data s < length (arrays s) \<and> filteredData s < length (arrays s))"

text \<open>
  The rows the recomputation produces for a query, a sort configuration and the rows of
  the dataset, as a function of these three alone.
\<close>

definition view_rows :: "string \<Rightarrow> sort_config option \<Rightarrow> row list \<Rightarrow> row list" where
  "view_rows q cfg D =
     (let filtered = (if q \<noteq> [] then filter (row_matches q) D else D)
      in case cfg of None \<Rightarrow> filtered | Some c \<Rightarrow> array_sort (compare_rows c) filtered)"

text \<open>
  The comparator orders the rows consistently on a column when being not greater is
  transitive on the column's values; it is total on any values.
\<close>

definition consistent_column :: "string \<Rightarrow> row list \<Rightarrow> bool" where
  "consistent_column k D =
     (\<forall>a \<in> set D. \<forall>b \<in> set D. \<forall>c \<in> set D.
        \<not> js_lt (get_prop b k) (get_prop a k) \<and> \<not> js_lt (get_prop c k) (get_prop b k)
        \<longrightarrow> \<not> js_lt (get_prop c k) (get_prop a k))"


text \<open>
  A field's string form contains the query case-insensitively when the lower-cased
  query is a contiguous part of the lower-cased string form.
\<close>

definition contains_ci :: "string \<Rightarrow> string \<Rightarrow> bool" where
  "contains_ci s q = sublist (toLowerCase q) (toLowerCase s)"

definition some_field_contains :: "string \<Rightarrow> row \<Rightarrow> bool" where
  "some_field_contains q r = (\<exists>v \<in> set (object_values r). contains_ci (js_String v) q)"

text \<open>The values that compare as numbers: numbers, booleans and null.\<close>

definition is_numeric :: "jsval \<Rightarrow> bool" where
  "is_numeric v = (case v of JNum n \<Rightarrow> True | JBool b \<Rightarrow> True | JNull \<Rightarrow> True | _ \<Rightarrow> False)"

definition is_string :: "jsval \<Rightarrow> bool" where
  "is_string v = (case v of JStr s \<Rightarrow> True | _ \<Rightarrow> False)"

section \<open>Example inputs\<close>

text \<open>The table of the specification's scenario: columns \<^verbatim>\<open>name\<close> and \<^verbatim>\<open>age\<close>, two rows.\<close>

definition example_rows :: "row list" where
  "example_rows =
     [[(''name'', JStr ''Bob''), (''age'', JNum 30)], [(''name'', JStr ''Amy''), (''age'', JNum 25)]]"

definition example_state :: viewer where
  "example_state =
     \<lparr>arrays = [example_rows], data = 0, columns = [''name'', ''age''], filteredData = 0,
      searchQuery = ''bO'', sortConfig = None, currentPage = 1, loading = False, error = None\<rparr>"



text \<open>The viewer after a file with the given header and rows was read and parsed.\<close>

definition loaded :: "string list \<Rightarrow> row list \<Rightarrow> viewer" where
  "loaded header D =
     load (ReadDone (Parsed \<lparr>errors = [], parsed_data = D, meta_fields = Some header\<rparr>)) mounted"

text \<open>Two rows tied on \<^verbatim>\<open>b\<close> and in descending order of \<^verbatim>\<open>a\<close>.\<close>

definition tied_rows :: "row list" where
  "tied_rows = [[(''a'', JNum 2), (''b'', JNum 1)], [(''a'', JNum 1), (''b'', JNum 1)]]"


text \<open>The outcome of parsing a file with a row shorter than the header.\<close>

definition broken_parse :: parse_result where
  "broken_parse =
     \<lparr>errors = [''TooFewFields''], parsed_data = [[(''a'', JStr ''x'')]],
      meta_fields = Some [''a'', ''b'']\<rparr>"

text \<open>
  A row parsed under the header \<^verbatim>\<open>b,1\<close>: the object lists its integer-like key first.
\<close>

definition integer_key_rows :: "row list" where
  "integer_key_rows = [[(''1'', JStr ''y''), (''b'', JStr ''x'')]]"


text \<open>A folder without children.\<close>

definition empty_folder :: tree_node where
  "empty_folder = TreeNode ''reports'' ''folder'' [] ''2024-01-01'' ''alice'' (Some [])"

section \<open>Properties of the search filter\<close>

lemma starts_with_prefix: "starts_with s t = prefix t s"
  by (induction s t rule: starts_with.induct) auto

lemma includes_sublist: "js_includes s t = sublist t s"
proof (induction s)
  case Nil
  show ?case by simp
next
  case (Cons c s)
  show ?case
    by (simp add: Cons.IH starts_with_prefix sublist_Cons_right)
qed

lemma row_matches_spec: "row_matches q r = some_field_contains q r"
  by (simp add: row_matches_def some_field_contains_def value_matches_def contains_ci_def
      includes_sublist list_ex_iff)

lemma contains_ci_empty: "contains_ci s []"
  by (simp add: contains_ci_def toLowerCase_def)

lemma deref_new_array: "new_array h xs = (a, h') \<Longrightarrow> deref h' a = xs"
  by (auto simp: new_array_def deref_def)

lemma filtered_before_sort_query:
  "searchQuery s \<noteq> [] \<Longrightarrow>
   filtered_before_sort s = filter (some_field_contains (searchQuery s)) (data_rows s)"
  by (simp add: filtered_before_sort_def filter_step_def new_array_def deref_def
      row_matches_spec [abs_def])

lemma filtered_before_sort_empty:
  "searchQuery s = [] \<Longrightarrow> filtered_before_sort s = data_rows s"
  by (simp add: filtered_before_sort_def filter_step_def data_rows_def)

lemma some_field_contains_empty: "r \<noteq> [] \<Longrightarrow> some_field_contains [] r"
  by (cases r) (auto simp: some_field_contains_def object_values_def contains_ci_empty)

text \<open>
  C1. For every dataset and query, the rows after the search filter and before sorting
  are exactly the rows of the dataset, in order, in which at least one field's string
  form contains the query case-insensitively; with the empty query all rows are kept.
  (A row always has a field, and then the first statement holds for the empty query
  too.)
\<close>

theorem search_filter_spec:
  "(searchQuery s \<noteq> [] \<longrightarrow>
      filtered_before_sort s = filter (some_field_contains (searchQuery s)) (data_rows s))
   \<and> (searchQuery s = [] \<longrightarrow> filtered_before_sort s = data_rows s)
   \<and> ((\<forall>r \<in> set (data_rows s). r \<noteq> []) \<longrightarrow>
      filtered_before_sort s = filter (some_field_contains (searchQuery s)) (data_rows s))"
proof (intro conjI impI)
  assume "searchQuery s \<noteq> []"
  then show "filtered_before_sort s = filter (some_field_contains (searchQuery s)) (data_rows s)"
    by (rule filtered_before_sort_query)
next
  assume "searchQuery s = []"
  then show "filtered_before_sort s = data_rows s"
    by (rule filtered_before_sort_empty)
next
  assume fields: "\<forall>r \<in> set (data_rows s). r \<noteq> []"
  show "filtered_before_sort s = filter (some_field_contains (searchQuery s)) (data_rows s)"
  proof (cases "searchQuery s = []")
    case False
    then show ?thesis by (rule filtered_before_sort_query)
  next
    case True
    from fields have "filter (some_field_contains []) (data_rows s) = data_rows s"
      by (simp add: filter_id_conv some_field_contains_empty)
    with True show ?thesis
      by (simp add: filtered_before_sort_empty)
  qed
qed

theorem search_filter_spec_witness:
  "searchQuery example_state \<noteq> []
   \<and> list_all (\<lambda>r. r \<noteq> []) (data_rows example_state)
   \<and> filter (some_field_contains (searchQuery example_state)) (data_rows example_state)
      = [[(''name'', JStr ''Bob''), (''age'', JNum 30)]]"
proof -
  have q: "searchQuery example_state \<noteq> []"
    by (simp add: example_state_def)
  have rows: "data_rows example_state = example_rows"
    by (simp add: example_state_def data_rows_def deref_def)
  have result: "filtered_before_sort example_state = [[(''name'', JStr ''Bob''), (''age'', JNum 30)]]"
    by code_simp
  from q search_filter_spec [of example_state]
  have "filtered_before_sort example_state
        = filter (some_field_contains (searchQuery example_state)) (data_rows example_state)"
    by simp
  with q rows result show ?thesis
    by (simp add: example_rows_def)
qed

section \<open>Properties of the comparator\<close>


lemma str_lt_asym: "str_lt s t \<Longrightarrow> \<not> str_lt t s"
  by (induction s t rule: str_lt.induct) auto


lemma js_lt_asym: "js_lt a b \<Longrightarrow> \<not> js_lt b a"
  by (cases a; cases b) (auto simp: str_lt_asym split: option.splits)





lemma compare_rows_desc_le:
  "compare_rows \<lparr>key = k, direction = Desc\<rparr> a b \<le> 0 \<longleftrightarrow> \<not> js_lt (get_prop a k) (get_prop b k)"
  by (auto simp: compare_rows_def Let_def dest: js_lt_asym)

section \<open>Properties of the sort\<close>


lemma mset_insert_sorted: "mset (insert_sorted cmp x ys) = add_mset x (mset ys)"
  by (induction ys) auto

lemma mset_array_sort: "mset (array_sort cmp xs) = mset xs"
  by (induction xs) (auto simp: array_sort_def mset_insert_sorted)



lemma length_array_sort: "length (array_sort cmp xs) = length xs"
  using mset_array_sort [of cmp xs] by (metis size_mset)








section \<open>Properties of the recomputation\<close>

lemma valid_addresses_updates [simp]:
  "valid_addresses (s\<lparr>searchQuery := q\<rparr>) = valid_addresses s"
  "valid_addresses (s\<lparr>sortConfig := c\<rparr>) = valid_addresses s"
  "valid_addresses (s\<lparr>currentPage := p\<rparr>) = valid_addresses s"
  "valid_addresses (s\<lparr>columns := cs\<rparr>) = valid_addresses s"
  by (simp_all add: valid_addresses_def)

lemma recompute_unchanged:
  "data (recompute s) = data s"
  "searchQuery (recompute s) = searchQuery s"
  "sortConfig (recompute s) = sortConfig s"
  "columns (recompute s) = columns s"
  "loading (recompute s) = loading s"
  "error (recompute s) = error s"
  "currentPage (recompute s) = 1"
  by (simp_all add: recompute_def split: prod.splits)


lemma recompute_filtered_rows:
  "valid_addresses s \<Longrightarrow>
   filtered_rows (recompute s) = view_rows (searchQuery s) (sortConfig s) (data_rows s)"
  by (auto simp: recompute_def sort_step_def filter_step_def new_array_def valid_addresses_def
      filtered_rows_def data_rows_def deref_def view_rows_def nth_append
      split: prod.splits option.splits if_splits)





section \<open>Toggling the sort\<close>






lemma data_rows_updates [simp]:
  "data_rows (s\<lparr>searchQuery := q\<rparr>) = data_rows s"
  "data_rows (s\<lparr>sortConfig := c\<rparr>) = data_rows s"
  "data_rows (s\<lparr>currentPage := p\<rparr>) = data_rows s"
  "data_rows (s\<lparr>columns := cs\<rparr>) = data_rows s"
  by (simp_all add: data_rows_def)

lemma filtered_rows_updates [simp]:
  "filtered_rows (s\<lparr>searchQuery := q\<rparr>) = filtered_rows s"
  "filtered_rows (s\<lparr>sortConfig := c\<rparr>) = filtered_rows s"
  "filtered_rows (s\<lparr>currentPage := p\<rparr>) = filtered_rows s"
  "filtered_rows (s\<lparr>columns := cs\<rparr>) = filtered_rows s"
  by (simp_all add: filtered_rows_def)

lemma handleSort_unchanged:
  "searchQuery (handleSort c s) = searchQuery s"
  "sortConfig (handleSort c s) = Some (next_sort_config c (sortConfig s))"
  "currentPage (handleSort c s) = 1"
  by (simp_all add: handleSort_def recompute_unchanged)




lemma str_lt_connected: "\<not> str_lt s t \<Longrightarrow> \<not> str_lt t s \<Longrightarrow> s = t"
  by (induction s t rule: str_lt.induct) (auto simp: linorder_neq_iff [symmetric])

lemma str_lt_trans: "str_lt s t \<Longrightarrow> str_lt t u \<Longrightarrow> str_lt s u"
proof (induction s t arbitrary: u rule: str_lt.induct)
  case (2 c t)
  then show ?case by (cases u) auto
next
  case (4 d s c t)
  then show ?case by (cases u) auto
qed auto

lemma str_lt_not_trans: "\<not> str_lt t s \<Longrightarrow> \<not> str_lt u t \<Longrightarrow> \<not> str_lt u s"
  by (metis str_lt_connected str_lt_trans)

lemma is_string_iff: "is_string v \<longleftrightarrow> (\<exists>s. v = JStr s)"
  by (cases v) (simp_all add: is_string_def)

lemma js_lt_numeric:
  "is_numeric a \<Longrightarrow> is_numeric b \<Longrightarrow> js_lt a b = (the (to_number a) < the (to_number b))"
  by (cases a; cases b) (simp_all add: is_numeric_def)

text \<open>
  A column that holds only numbers, booleans and nulls, or only strings, is ordered
  consistently.
\<close>

lemma numeric_column_consistent:
  assumes "\<forall>r \<in> set D. is_numeric (get_prop r k)"
  shows "consistent_column k D"
  unfolding consistent_column_def
proof (intro ballI impI)
  fix a b c assume "a \<in> set D" "b \<in> set D" "c \<in> set D"
  with assms have "is_numeric (get_prop a k)" "is_numeric (get_prop b k)" "is_numeric (get_prop c k)"
    by blast+
  moreover assume "\<not> js_lt (get_prop b k) (get_prop a k) \<and> \<not> js_lt (get_prop c k) (get_prop b k)"
  ultimately show "\<not> js_lt (get_prop c k) (get_prop a k)"
    by (simp add: js_lt_numeric)
qed

lemma string_column_consistent:
  assumes "\<forall>r \<in> set D. is_string (get_prop r k)"
  shows "consistent_column k D"
  unfolding consistent_column_def
proof (intro ballI impI)
  fix a b c assume "a \<in> set D" "b \<in> set D" "c \<in> set D"
  with assms obtain s t u where
    "get_prop a k = JStr s" "get_prop b k = JStr t" "get_prop c k = JStr u"
    unfolding is_string_iff by blast
  moreover assume "\<not> js_lt (get_prop b k) (get_prop a k) \<and> \<not> js_lt (get_prop c k) (get_prop b k)"
  ultimately show "\<not> js_lt (get_prop c k) (get_prop a k)"
    using str_lt_not_trans by auto
qed




section \<open>Dependence on earlier sorts\<close>

text \<open>
  C3. Two histories from the same loaded dataset that end with the same query (none) and
  the same sort configuration (column \<^verbatim>\<open>b\<close>, ascending) show different rows: sorting by
  \<^verbatim>\<open>a\<close> first reorders the dataset's own array, and the later stable sort by \<^verbatim>\<open>b\<close> keeps
  that order among the rows tied on \<^verbatim>\<open>b\<close>.
\<close>

theorem sort_history_changes_rows:
  "searchQuery (handleSort ''b'' (handleSort ''a'' (loaded [''a'', ''b''] tied_rows))) = []
   \<and> searchQuery (handleSort ''b'' (loaded [''a'', ''b''] tied_rows)) = []
   \<and> sortConfig (handleSort ''b'' (handleSort ''a'' (loaded [''a'', ''b''] tied_rows)))
       = Some \<lparr>key = ''b'', direction = Asc\<rparr>
   \<and> sortConfig (handleSort ''b'' (loaded [''a'', ''b''] tied_rows))
       = Some \<lparr>key = ''b'', direction = Asc\<rparr>
   \<and> filtered_rows (handleSort ''b'' (handleSort ''a'' (loaded [''a'', ''b''] tied_rows)))
       = [[(''a'', JNum 1), (''b'', JNum 1)], [(''a'', JNum 2), (''b'', JNum 1)]]
   \<and> filtered_rows (handleSort ''b'' (loaded [''a'', ''b''] tied_rows))
       = [[(''a'', JNum 2), (''b'', JNum 1)], [(''a'', JNum 1), (''b'', JNum 1)]]"
  by code_simp

section \<open>Failed loads\<close>

text \<open>
  C2. A parse that reports an error sets the error message and returns without clearing
  \<^verbatim>\<open>loading\<close>, and a failed read calls no handler at all: in both cases the viewer goes
  on showing the loading indicator, never the error message. No row and no column is
  stored in either case.
\<close>

theorem failed_load_stays_loading:
  "error (load (ReadDone (Parsed broken_parse)) mounted) = Some ''Error parsing CSV file''
   \<and> loading (load (ReadDone (Parsed broken_parse)) mounted)
   \<and> render (load (ReadDone (Parsed broken_parse)) mounted) = LoadingScreen
   \<and> data_rows (load (ReadDone (Parsed broken_parse)) mounted) = []
   \<and> columns (load (ReadDone (Parsed broken_parse)) mounted) = []
   \<and> error (load ReadFails mounted) = None
   \<and> render (load ReadFails mounted) = LoadingScreen
   \<and> render (load (ReadDone ParseThrows) mounted) = ErrorScreen ''Failed to load CSV file''"
  by code_simp

section \<open>Properties of the pagination\<close>

lemma page_handlers_keep_rows:
  "filtered_rows (previousPage s) = filtered_rows s"
  "filtered_rows (goToPage n s) = filtered_rows s"
  "filtered_rows (nextPage s) = filtered_rows s"
  "data_rows (previousPage s) = data_rows s"
  "data_rows (goToPage n s) = data_rows s"
  "data_rows (nextPage s) = data_rows s"
  by (simp_all add: previousPage_def goToPage_def nextPage_def)

lemma page_handlers_keep_state:
  "arrays (previousPage s) = arrays s \<and> searchQuery (previousPage s) = searchQuery s
   \<and> sortConfig (previousPage s) = sortConfig s"
  "arrays (goToPage n s) = arrays s \<and> searchQuery (goToPage n s) = searchQuery s
   \<and> sortConfig (goToPage n s) = sortConfig s"
  "arrays (nextPage s) = arrays s \<and> searchQuery (nextPage s) = searchQuery s
   \<and> sortConfig (nextPage s) = sortConfig s"
  by (simp_all add: previousPage_def goToPage_def nextPage_def)

text \<open>
  C6. Every change of the search query or of the sort configuration resets the current
  page to 1, and a change of the current page alone (by any of the three kinds of
  pagination button) leaves the filtered rows and the dataset as they are.
\<close>

theorem page_reset_and_frame:
  "(q \<noteq> searchQuery s \<longrightarrow> currentPage (setSearchQuery q s) = 1)
   \<and> currentPage (handleSort c s) = 1
   \<and> filtered_rows (previousPage s) = filtered_rows s \<and> data_rows (previousPage s) = data_rows s
   \<and> filtered_rows (goToPage n s) = filtered_rows s \<and> data_rows (goToPage n s) = data_rows s
   \<and> filtered_rows (nextPage s) = filtered_rows s \<and> data_rows (nextPage s) = data_rows s"
  by (simp add: page_handlers_keep_rows handleSort_unchanged setSearchQuery_def
      recompute_unchanged)

theorem page_reset_and_frame_witness:
  "''a'' \<noteq> searchQuery (example_state\<lparr>currentPage := 2\<rparr>)
   \<and> currentPage (example_state\<lparr>currentPage := 2\<rparr>) = 2
   \<and> currentPage (setSearchQuery ''a'' (example_state\<lparr>currentPage := 2\<rparr>)) = 1
   \<and> currentPage (handleSort ''age'' (example_state\<lparr>currentPage := 2\<rparr>)) = 1
   \<and> filtered_rows (nextPage (example_state\<lparr>currentPage := 2\<rparr>))
       = filtered_rows (example_state\<lparr>currentPage := 2\<rparr>)"
proof -
  have q: "''a'' \<noteq> searchQuery (example_state\<lparr>currentPage := 2\<rparr>)"
    by (simp add: example_state_def)
  have p: "currentPage (example_state\<lparr>currentPage := 2\<rparr>) = 2"
    by simp
  from page_reset_and_frame [of "''a''" "example_state\<lparr>currentPage := 2\<rparr>" "''age''"] q p
  show ?thesis by simp
qed






section \<open>The text of a cell\<close>

lemma nat_digits_not_empty: "nat_digits n \<noteq> []"
  by (subst nat_digits.simps) simp

lemma truthy_string_not_empty: "truthy v \<Longrightarrow> js_String v \<noteq> []"
  by (cases v) (simp_all add: int_to_string_def nat_digits_not_empty)

lemma falsy_values: "\<not> truthy v \<longleftrightarrow> v \<in> {JUndefined, JNull, JBool False, JNum 0, JStr []}"
  by (cases v) auto

text \<open>
  C10. For every row and column the text of the cell is the empty string exactly when the
  cell's value is falsy: the key is missing, or the value is null, the boolean false, the
  number 0 or the empty string. Every other value is shown as its string form.
\<close>

theorem cell_text_falsy:
  "(cell_text r c = [] \<longleftrightarrow> get_prop r c \<in> {JUndefined, JNull, JBool False, JNum 0, JStr []})
   \<and> (get_prop r c \<notin> {JUndefined, JNull, JBool False, JNum 0, JStr []} \<longrightarrow>
        cell_text r c = js_String (get_prop r c))
   \<and> (map_of r c = None \<longrightarrow> cell_text r c = [])"
proof -
  have "cell_text r c = (if truthy (get_prop r c) then js_String (get_prop r c) else [])"
    by (simp add: cell_text_def Let_def)
  moreover have "map_of r c = None \<longrightarrow> get_prop r c = JUndefined"
    by (simp add: get_prop_def)
  ultimately show ?thesis
    using truthy_string_not_empty [of "get_prop r c"] falsy_values [of "get_prop r c"]
    by auto
qed

theorem cell_text_falsy_witness:
  "cell_text [(''n'', JNum 0), (''f'', JBool False), (''e'', JStr []), (''z'', JNull), (''t'', JNum 25)] ''n'' = []
   \<and> cell_text [(''n'', JNum 0), (''f'', JBool False), (''e'', JStr []), (''z'', JNull), (''t'', JNum 25)] ''f'' = []
   \<and> cell_text [(''n'', JNum 0), (''f'', JBool False), (''e'', JStr []), (''z'', JNull), (''t'', JNum 25)] ''e'' = []
   \<and> cell_text [(''n'', JNum 0), (''f'', JBool False), (''e'', JStr []), (''z'', JNull), (''t'', JNum 25)] ''z'' = []
   \<and> map_of [(''n'', JNum 0), (''f'', JBool False), (''e'', JStr []), (''z'', JNull), (''t'', JNum 25)] ''missing'' = None
   \<and> cell_text [(''n'', JNum 0), (''f'', JBool False), (''e'', JStr []), (''z'', JNull), (''t'', JNum 25)] ''missing'' = []
   \<and> get_prop [(''n'', JNum 0), (''f'', JBool False), (''e'', JStr []), (''z'', JNull), (''t'', JNum 25)] ''t'' = JNum 25
   \<and> cell_text [(''n'', JNum 0), (''f'', JBool False), (''e'', JStr []), (''z'', JNull), (''t'', JNum 25)] ''t'' = ''25''"
proof -
  let ?r = "[(''n'', JNum 0), (''f'', JBool False), (''e'', JStr []), (''z'', JNull), (''t'', JNum 25)]"
  have g: "get_prop ?r ''n'' = JNum 0" "get_prop ?r ''f'' = JBool False"
    "get_prop ?r ''e'' = JStr []" "get_prop ?r ''z'' = JNull" "get_prop ?r ''t'' = JNum 25"
    "map_of ?r ''missing'' = None"
    by (simp_all add: get_prop_def)
  have s: "js_String (JNum 25) = ''25''"
    by code_simp
  from cell_text_falsy [of ?r "''n''"] cell_text_falsy [of ?r "''f''"]
    cell_text_falsy [of ?r "''e''"] cell_text_falsy [of ?r "''z''"]
    cell_text_falsy [of ?r "''missing''"] cell_text_falsy [of ?r "''t''"] g s
  show ?thesis by simp
qed

section \<open>Properties of the export\<close>

text \<open>
  C8, as stated, fails on the ordering of the columns: the handler gives the serializer
  the filtered rows and nothing else. Two files with the same rows and with the header
  fields in a different order (a row object lists an integer-like key such as \<^verbatim>\<open>1\<close> before
  its other keys, whatever the order in the header), or two header-only files with
  different headers, lead to the same export request.
\<close>

theorem export_columns_counterexample:
  "columns (loaded [''b'', ''1''] integer_key_rows) = [''b'', ''1'']
   \<and> columns (loaded [''1'', ''b''] integer_key_rows) = [''1'', ''b'']
   \<and> exportData ''t.csv'' (loaded [''b'', ''1''] integer_key_rows)
       = exportData ''t.csv'' (loaded [''1'', ''b''] integer_key_rows)
   \<and> columns (loaded [''name'', ''age''] []) = [''name'', ''age'']
   \<and> columns (loaded [''age'', ''name''] []) = [''age'', ''name'']
   \<and> exportData ''t.csv'' (loaded [''name'', ''age''] [])
       = exportData ''t.csv'' (loaded [''age'', ''name''] [])"
  by code_simp

text \<open>
  C8, amended. Export hands exactly the current filtered rows (not the full dataset) to
  the serializer, whatever the \<^verbatim>\<open>columns\<close> of the header are, reflecting the latest
  filter and sort at the moment of the call, and offers the result under the file name
  \<^verbatim>\<open>filtered_\<close> followed by the original file name.
\<close>

theorem export_request_spec:
  "exportData file_name s =
     \<lparr>unparse_argument = filtered_rows s, blob_type = ''text/csv;charset=utf-8;'',
      download = ''filtered_'' @ file_name\<rparr>
   \<and> exportData file_name (s\<lparr>columns := cs\<rparr>) = exportData file_name s
   \<and> (valid_addresses s \<longrightarrow>
        unparse_argument (exportData file_name (recompute s))
          = view_rows (searchQuery s) (sortConfig s) (data_rows s))"
  by (simp add: exportData_def recompute_filtered_rows)

theorem export_request_spec_witness:
  "valid_addresses example_state
   \<and> unparse_argument (exportData ''people.csv'' (recompute example_state))
       = [[(''name'', JStr ''Bob''), (''age'', JNum 30)]]
   \<and> download (exportData ''people.csv'' (recompute example_state)) = ''filtered_people.csv''"
proof -
  have v: "valid_addresses example_state" by code_simp
  have r: "view_rows (searchQuery example_state) (sortConfig example_state) (data_rows example_state)
             = [[(''name'', JStr ''Bob''), (''age'', JNum 30)]]"
    by code_simp
  from export_request_spec [of "''people.csv''" "recompute example_state"]
    export_request_spec [of "''people.csv''" example_state] v r
  show ?thesis by simp
qed

section \<open>The empty folder\<close>

text \<open>
  C9. For every folder node whose sequence of children is empty, a click on the
  collapsed node expands it, and the expanded node renders the empty-folder indicator
  and no block of children; collapsed, it renders neither. So the expanded empty
  folder is told apart from the collapsed one.
\<close>

theorem empty_folder_indicator:
  assumes "isFolder node" and "children node = Some []"
  shows "expanded (fst (click node (Instance False ks)))
         \<and> map_option empty_indicator (render_node node (fst (click node (Instance False ks))))
             = Some (Some ''Empty folder'')
         \<and> map_option child_block (render_node node (fst (click node (Instance False ks))))
             = Some None
         \<and> map_option empty_indicator (render_node node (Instance False ks)) = Some None
         \<and> map_option child_block (render_node node (Instance False ks)) = Some None
         \<and> render_node node (fst (click node (Instance False ks)))
             \<noteq> render_node node (Instance False ks)"
  using assms by (cases node) (simp add: click_def toggle_def)

theorem empty_folder_indicator_witness:
  "isFolder empty_folder
   \<and> children empty_folder = Some []
   \<and> render_node empty_folder (fst (click empty_folder fresh))
       = Some (Markup
           \<lparr>hover = ''hover:bg-blue-50'', arrow = ChevronDown, icon = Some FolderIcon,
            label = ''reports'', badge = None, created = ''2024-01-01'', modified = ''alice''\<rparr>
           None (Some ''Empty folder''))
   \<and> map_option empty_indicator (render_node empty_folder fresh) = Some None"
proof -
  have f: "isFolder empty_folder"
    by (simp add: isFolder_def empty_folder_def)
  have c: "children empty_folder = Some []"
    by (simp add: empty_folder_def)
  have r: "render_node empty_folder (fst (click empty_folder fresh))
       = Some (Markup
           \<lparr>hover = ''hover:bg-blue-50'', arrow = ChevronDown, icon = Some FolderIcon,
            label = ''reports'', badge = None, created = ''2024-01-01'', modified = ''alice''\<rparr>
           None (Some ''Empty folder''))"
    by code_simp
  from empty_folder_indicator [OF f c, of "[]"] f c r show ?thesis
    by (simp add: fresh_def)
qed

end
